theory Spec2Isabelle
  imports Main
begin

section \<open>The website request (X8WebSiteProps)\<close>

text \<open>
  The properties object of \<^verbatim>\<open>lib/x8-website.ts\<close>. An optional field
  (\<^verbatim>\<open>field?: T\<close>) is an \<open>option\<close>: \<open>None\<close> is \<^verbatim>\<open>undefined\<close>.
  Three fields hold values of framework types that the code passes on without looking
  inside; their types are left unspecified.
\<close>

typedecl WaBucketProps

typedecl OriginAccessIdentity

typedecl BehaviorOptions

record X8WebSiteProps =
  waDomainName :: string
  waSubDomain :: "string option"
  waPathToContent :: "string option"
  waAdditionalDomainNames :: "string list option"
  waDefaultRootObject :: "string option"
  waErrorResponsePagePath :: "string option"
  waBucketPolicyActions :: "string list option"
  waBucketProps :: "WaBucketProps option"
  waOriginAccessIdentity :: "OriginAccessIdentity option"
  waEnableCloudFrontLogging :: "bool option"
  waCloudFrontDistributionDefaultBehavior :: "BehaviorOptions option"

text \<open>A request that sets the one required field only.\<close>

definition minimalProps :: "string \<Rightarrow> X8WebSiteProps" where
  "minimalProps d =
     \<lparr>waDomainName = d, waSubDomain = None, waPathToContent = None,
      waAdditionalDomainNames = None, waDefaultRootObject = None,
      waErrorResponsePagePath = None, waBucketPolicyActions = None,
      waBucketProps = None, waOriginAccessIdentity = None,
      waEnableCloudFrontLogging = None, waCloudFrontDistributionDefaultBehavior = None\<rparr>"

text \<open>
  JavaScript truthiness of an optional string, as tested by
  \<^verbatim>\<open>props.waSubDomain && ...\<close>: \<^verbatim>\<open>undefined\<close> and the empty string are falsy,
  every other string is truthy.
\<close>

definition truthy :: "string option \<Rightarrow> bool" where
  "truthy v = (case v of None \<Rightarrow> False | Some s \<Rightarrow> s \<noteq> [])"

text \<open>The local constant \<^verbatim>\<open>const wwwSubDomain = "www"\<close> of both functions.\<close>

definition wwwSubDomain :: string where
  "wwwSubDomain = ''www''"

text \<open>
  \<^verbatim>\<open>props.waAdditionalDomainNames\<close> read as a list: the entries when the field is
  set, no entry when it is \<^verbatim>\<open>undefined\<close>.
\<close>

definition additionalDomains :: "X8WebSiteProps \<Rightarrow> string list" where
  "additionalDomains props =
     (case waAdditionalDomainNames props of None \<Rightarrow> [] | Some ds \<Rightarrow> ds)"

section \<open>Domain computations\<close>

text \<open>\<^verbatim>\<open>getSiteDomain\<close>: the two template strings, guarded by truthiness and the comparison with "www".\<close>

definition getSiteDomain :: "X8WebSiteProps \<Rightarrow> string" where
  "getSiteDomain props =
     (case waSubDomain props of
        None \<Rightarrow> wwwSubDomain @ ''.'' @ waDomainName props
      | Some sub \<Rightarrow>
          if truthy (Some sub) \<and> sub \<noteq> wwwSubDomain
          then wwwSubDomain @ ''.'' @ sub @ ''.'' @ waDomainName props
          else wwwSubDomain @ ''.'' @ waDomainName props)"

text \<open>
  \<^verbatim>\<open>getCertificateDomains\<close>: the list starts empty, receives the primary entry by
  \<^verbatim>\<open>concat\<close>, then the additional names when the field is set (an array, even an
  empty one, is truthy).
\<close>

definition getCertificateDomains :: "X8WebSiteProps \<Rightarrow> string list" where
  "getCertificateDomains props =
     (let certificateDomains0 = [];
          certificateDomains1 =
            (case waSubDomain props of
               None \<Rightarrow> certificateDomains0 @ [waDomainName props]
             | Some sub \<Rightarrow>
                 if truthy (Some sub) \<and> sub \<noteq> wwwSubDomain
                 then certificateDomains0 @ [sub @ ''.'' @ waDomainName props]
                 else certificateDomains0 @ [waDomainName props])
      in case waAdditionalDomainNames props of
           None \<Rightarrow> certificateDomains1
         | Some ds \<Rightarrow> certificateDomains1 @ ds)"

text \<open>\<^verbatim>\<open>getDistributionDomains\<close>.\<close>

definition getDistributionDomains :: "X8WebSiteProps \<Rightarrow> string list" where
  "getDistributionDomains props = getCertificateDomains props @ [getSiteDomain props]"

section \<open>JavaScript string primitives\<close>

text \<open>
  Strings are lists of characters. The built-in string methods used by
  \<^verbatim>\<open>domainNameToPascalCase\<close> and by the case conversion are written out here.
  The code looks at single characters only to compare them with ".", "-", NUL and the
  ASCII letters and digits; every other character is copied or treated as a separator,
  whatever its code.
\<close>

text \<open>\<^verbatim>\<open>s.split(sep)\<close> for a one-character separator: never empty, \<^verbatim>\<open>"".split(".")\<close> is \<^verbatim>\<open>[""]\<close>.\<close>

fun split :: "char \<Rightarrow> string \<Rightarrow> string list" where
  "split sep [] = [[]]"
| "split sep (c # cs) =
     (if c = sep then [] # split sep cs
      else (case split sep cs of
              [] \<Rightarrow> [[c]]
            | p # ps \<Rightarrow> (c # p) # ps))"

text \<open>
  \<^verbatim>\<open>s.replace(c, rep)\<close> with a string pattern of one character: only the first
  occurrence is replaced.
\<close>

fun replace :: "char \<Rightarrow> string \<Rightarrow> string \<Rightarrow> string" where
  "replace c rep [] = []"
| "replace c rep (x # xs) = (if x = c then rep @ xs else x # replace c rep xs)"

text \<open>
  \<^verbatim>\<open>s.lastIndexOf(pat)\<close>: the greatest index at which \<open>pat\<close> starts, \<open>-1\<close> when
  there is none. The search runs downwards from the last position where \<open>pat\<close> fits.
\<close>

fun lastIndexFrom :: "string \<Rightarrow> string \<Rightarrow> nat \<Rightarrow> int" where
  "lastIndexFrom s pat 0 = (if take (length pat) s = pat then 0 else - 1)"
| "lastIndexFrom s pat (Suc i) =
     (if take (length pat) (drop (Suc i) s) = pat then int (Suc i)
      else lastIndexFrom s pat i)"

definition lastIndexOf :: "string \<Rightarrow> string \<Rightarrow> int" where
  "lastIndexOf s pat =
     (if length pat \<le> length s then lastIndexFrom s pat (length s - length pat) else - 1)"

text \<open>
  \<^verbatim>\<open>s.slice(b, e)\<close>: a negative index counts from the end, both are clamped to the
  string, and the result is empty when the start is not before the end.
\<close>

definition slice :: "string \<Rightarrow> int \<Rightarrow> int \<Rightarrow> string" where
  "slice s b e =
     (let len = int (length s);
          from = (if b < 0 then max (len + b) 0 else min b len);
          to = (if e < 0 then max (len + e) 0 else min e len)
      in take (nat (to - from)) (drop (nat from) s))"

text \<open>
  The character classes of the regular expressions and the case mappings, on the ASCII
  letters and digits. \<^verbatim>\<open>toUpperCase\<close> and \<^verbatim>\<open>toLowerCase\<close> are only ever
  applied to characters that passed the strip expression below, which are ASCII letters
  and digits.
\<close>

definition lowerLetters :: string where
  "lowerLetters = ''abcdefghijklmnopqrstuvwxyz''"

definition upperLetters :: string where
  "upperLetters = ''ABCDEFGHIJKLMNOPQRSTUVWXYZ''"

definition digits :: string where
  "digits = ''0123456789''"

definition isLower :: "char \<Rightarrow> bool" where
  "isLower c = (c \<in> set lowerLetters)"

definition isUpper :: "char \<Rightarrow> bool" where
  "isUpper c = (c \<in> set upperLetters)"

definition isDigit :: "char \<Rightarrow> bool" where
  "isDigit c = (c \<in> set digits)"

definition isWordChar :: "char \<Rightarrow> bool" where
  "isWordChar c = (isUpper c \<or> isLower c \<or> isDigit c)"

definition toUpperCase :: "char \<Rightarrow> char" where
  "toUpperCase c = (case map_of (zip lowerLetters upperLetters) c of None \<Rightarrow> c | Some u \<Rightarrow> u)"

definition toLowerCase :: "char \<Rightarrow> char" where
  "toLowerCase c = (case map_of (zip upperLetters lowerLetters) c of None \<Rightarrow> c | Some l \<Rightarrow> l)"

section \<open>pascalCase\<close>

text \<open>
  \<^verbatim>\<open>pascalCase\<close> is imported from the package \<^verbatim>\<open>pascal-case\<close> (dependency
  \<^verbatim>\<open>^3.1.2\<close>) and is not part of the sources. The spec describes it as the
  conversion of a part to its word-capitalized form: capitalize the first letter of each
  word, strip separators. The definitions of this section spell that out the way release
  3.1.2 of the package computes it, through \<^verbatim>\<open>noCase\<close> of \<^verbatim>\<open>no-case\<close>: words are
  cut where a lower-case letter or digit meets an upper-case letter and before the last
  capital of a run of capitals that is followed by a lower-case letter; every run of
  characters other than ASCII letters and digits is a separator; separators at both ends
  are dropped; each word gets an upper-case first character and lower-case remaining
  characters (a word after the first that starts with a digit is prefixed with an
  underscore); the words are joined without a delimiter.
\<close>

text \<open>
  Modelled from the spec: the character \<^verbatim>\<open>"\0"\<close> that \<^verbatim>\<open>noCase\<close> of the absent
  package puts between words.
\<close>

definition NUL :: char where
  "NUL = CHR 0x00"

text \<open>
  Modelled from the spec: the first split expression of the absent \<^verbatim>\<open>noCase\<close>,
  \<^verbatim>\<open>input.replace(/([a-z0-9])([A-Z])/g, "$1\0$2")\<close>. The scan resumes after each match.
\<close>

fun splitLowerUpper :: "string \<Rightarrow> string" where
  "splitLowerUpper (a # b # r) =
     (if (isLower a \<or> isDigit a) \<and> isUpper b then a # NUL # b # splitLowerUpper r
      else a # splitLowerUpper (b # r))"
| "splitLowerUpper s = s"

text \<open>
  Modelled from the spec: the second split expression of the absent \<^verbatim>\<open>noCase\<close>,
  \<^verbatim>\<open>input.replace(/([A-Z])([A-Z][a-z])/g, "$1\0$2")\<close>.
\<close>

fun splitUpperUpperLower :: "string \<Rightarrow> string" where
  "splitUpperUpperLower (a # b # c # r) =
     (if isUpper a \<and> isUpper b \<and> isLower c then a # NUL # b # c # splitUpperUpperLower r
      else a # splitUpperUpperLower (b # c # r))"
| "splitUpperUpperLower s = s"

text \<open>
  Modelled from the spec: the strip expression of the absent \<^verbatim>\<open>noCase\<close>,
  \<^verbatim>\<open>input.replace(/[^A-Z0-9]+/gi, "\0")\<close>. Each maximal run of characters other than
  letters and digits (the separators) becomes one NUL.
\<close>

function stripNonWord :: "string \<Rightarrow> string" where
  "stripNonWord [] = []"
| "stripNonWord (c # r) =
     (if isWordChar c then c # stripNonWord r
      else NUL # stripNonWord (dropWhile (\<lambda>x. \<not> isWordChar x) r))"
  by pat_completeness auto
termination
  by (relation "measure length") (auto simp: le_imp_less_Suc length_dropWhile_le)

text \<open>
  Modelled from the spec: \<^verbatim>\<open>pascalCaseTransform(input, index)\<close> of the absent
  package, the capitalization of one word. \<^verbatim>\<open>charAt(0)\<close> of the empty string is the
  empty string, hence \<open>take 1\<close>.
\<close>

definition pascalCaseTransform :: "string \<Rightarrow> nat \<Rightarrow> string" where
  "pascalCaseTransform input index =
     (let firstChar = take 1 input;
          lowerChars = map toLowerCase (drop 1 input)
      in if index > 0 \<and> list_ex isDigit firstChar
         then ''_'' @ firstChar @ lowerChars
         else map toUpperCase firstChar @ lowerChars)"

text \<open>
  Modelled from the spec: \<^verbatim>\<open>pascalCase\<close> of the absent package, that is
  \<^verbatim>\<open>noCase\<close> with the transform above and the empty delimiter. The two trimming
  loops count the NULs at the start and at the end, the slice between them is cut at the
  NULs, and the transformed words are joined.
\<close>

definition pascalCase :: "string \<Rightarrow> string" where
  "pascalCase input =
     (let result = stripNonWord (splitUpperUpperLower (splitLowerUpper input));
          start = length (takeWhile (\<lambda>c. c = NUL) result);
          end = length result - length (takeWhile (\<lambda>c. c = NUL) (rev result));
          words = split NUL (slice result (int start) (int end))
      in concat (map (\<lambda>(index, word). pascalCaseTransform word index) (enumerate 0 words)))"

section \<open>Resource identifiers\<close>

text \<open>
  \<^verbatim>\<open>domainNameToPascalCase\<close>. The loop appends the converted part and the token
  "Dot" for each part in turn. The index for the slice is taken in \<^verbatim>\<open>domain\<close>
  itself, the string before the replacement.
\<close>

definition domainNameToPascalCase :: "string \<Rightarrow> string" where
  "domainNameToPascalCase domainName =
     (let domainParts = split (CHR ''.'') domainName;
          domain = foldl (\<lambda>domain domainPart. domain @ pascalCase domainPart @ ''Dot'') [] domainParts
      in slice (replace (CHR ''-'') [] domain) 0 (lastIndexOf domain ''Dot''))"

section \<open>The constructor\<close>

text \<open>
  The constructor of \<^verbatim>\<open>X8Website\<close> creates child constructs in its own scope and
  hands resource descriptions to the framework. It can fail: the framework throws an
  \<^verbatim>\<open>Error\<close> inside two of the calls the constructor makes, and the constructor
  catches nothing. It also changes its argument: \<^verbatim>\<open>bucketPolicyActions.push\<close> writes
  into the caller's own array when \<^verbatim>\<open>waBucketPolicyActions\<close> is set. The model
  therefore returns an error or the resource descriptions, together with the request as
  the caller finds it afterwards.

  Failures that depend on what this code does not compute (the registration of the
  construct itself in its parent scope by \<^verbatim>\<open>super\<close>, the environment of the context
  lookup, the naming rules of the bucket construct, a missing content directory) are not
  modelled; they only remove further requests from those for which the constructor
  completes.
\<close>

text \<open>
  Modelled from the spec: the failures raised by the framework packages
  (\<^verbatim>\<open>aws-cdk-lib\<close>, \<^verbatim>\<open>constructs\<close>), which are not part of the sources. The spec
  names them by kind: an empty domain is invalid domain input, and two names that reduce
  to the same identifier are an identifier collision, reported as a naming conflict.
  \<^verbatim>\<open>HostedZone.fromLookup\<close> throws when its \<^verbatim>\<open>domainName\<close> is falsy; adding a
  child to a scope throws when the scope already has a child with that identifier.
\<close>

datatype error = InvalidDomainInput | IdentifierCollision string

text \<open>
  Modelled from the spec: the construct tree of the absent \<^verbatim>\<open>constructs\<close> package,
  reduced to the identifiers of the children of one scope in creation order. The
  children are added one by one; the first identifier that is already taken throws.
\<close>

fun addChildren :: "string list \<Rightarrow> string list \<Rightarrow> error + string list" where
  "addChildren children [] = Inr children"
| "addChildren children (i # ids) =
     (if i \<in> set children then Inl (IdentifierCollision i)
      else addChildren (children @ [i]) ids)"

text \<open>The resource descriptions, with the fields the constructor sets.\<close>

record HostedZone =
  zoneId :: string
  zoneDomainName :: string

datatype cloudfrontOAI =
  ProvidedIdentity OriginAccessIdentity
| NewIdentity string string

record WaBucket =
  bucketId :: string
  bucketProps :: "WaBucketProps option"
  bucketName :: string
  policyActions :: "string list"

record DnsValidatedCertificate =
  certificateId :: string
  domainName :: string
  hostedZone :: HostedZone
  subjectAlternativeNames :: "string list"

record ErrorResponse =
  httpStatus :: nat
  responseHttpStatus :: nat
  responsePagePath :: string
  ttlMinutes :: nat

record Distribution =
  distributionId :: string
  distributionCertificate :: string
  enableLogging :: bool
  defaultRootObject :: string
  domainNames :: "string list"
  errorResponses :: "ErrorResponse list"
  behaviorOverrides :: "BehaviorOptions option"
  compress :: bool

record BucketDeployment =
  deploymentId :: string
  sources :: "string list"
  distributionPaths :: "string list"

record ARecord =
  recordId :: string
  recordName :: string

text \<open>
  The value of an output: a string computed here, or an attribute of a resource that
  only the framework resolves.
\<close>

datatype outputValue =
  Text string
| BucketNameOf string
| CertificateArnOf string
| DistributionIdOf string

record X8WebsiteResources =
  children :: "string list"
  zone :: HostedZone
  cloudfrontOAI :: cloudfrontOAI
  websiteBucket :: WaBucket
  certificate :: DnsValidatedCertificate
  cdn :: Distribution
  deployment :: BucketDeployment
  cfAliasRecord :: ARecord
  wwwAliasRecords :: "ARecord list"
  outputs :: "(string \<times> outputValue) list"

text \<open>
  The identifiers of the two children created for one certificate domain in the body of
  \<^verbatim>\<open>certSans.map\<close>: the alias record, then the output.
\<close>

definition certNameIds :: "string \<Rightarrow> string list" where
  "certNameIds certName =
     (let nameToPascalCase = domainNameToPascalCase certName
      in [nameToPascalCase @ ''WwwAliasRecord'', nameToPascalCase @ ''UrlOutput''])"

text \<open>
  The identifiers of all children the constructor creates in its own scope, in the order
  of the \<^verbatim>\<open>new\<close> expressions and the zone lookup. The origin access identity is a
  child only when the request does not provide one.
\<close>

definition constructIds :: "X8WebSiteProps \<Rightarrow> string list" where
  "constructIds props =
     (let domainNameId = domainNameToPascalCase (waDomainName props)
      in [domainNameId @ ''Zone'']
         @ (case waOriginAccessIdentity props of
              None \<Rightarrow> [''OriginAccessIdentity'']
            | Some _ \<Rightarrow> [])
         @ [''WebsiteBucket'', domainNameId @ ''Cert'', domainNameId @ ''Distribution'',
            ''DeployWithInvalidation'', domainNameId @ ''CfAliasRecord'']
         @ concat (map certNameIds (getCertificateDomains props))
         @ [''Bucket'', ''Certificate'', ''DistributionId'', ''WebsiteUrl''])"

text \<open>
  The request after \<^verbatim>\<open>bucketPolicyActions.push("s3:GetObject")\<close>: with
  \<^verbatim>\<open>waBucketPolicyActions\<close> set, the array pushed to is the caller's; otherwise it is
  a fresh array and the request is unchanged.
\<close>

definition pushGetObject :: "X8WebSiteProps \<Rightarrow> X8WebSiteProps" where
  "pushGetObject props =
     (case waBucketPolicyActions props of
        None \<Rightarrow> props
      | Some actions \<Rightarrow> props\<lparr>waBucketPolicyActions := Some (actions @ [''s3:GetObject''])\<rparr>)"

text \<open>
  The constructor, for the construct name \<open>name\<close>. The zone lookup comes first and
  fails on an empty domain name, before anything is pushed. Every later failure is an
  identifier collision among the children, and leaves the pushed action in the caller's
  array.
\<close>

definition X8Website ::
  "string \<Rightarrow> X8WebSiteProps \<Rightarrow> (error + X8WebsiteResources) \<times> X8WebSiteProps" where
  "X8Website name props =
     (let domainNameId = domainNameToPascalCase (waDomainName props)
      in if waDomainName props = [] then (Inl InvalidDomainInput, props)
         else
           (let zone = \<lparr>zoneId = domainNameId @ ''Zone'', zoneDomainName = waDomainName props\<rparr>;
                wwwSiteDomain = getSiteDomain props;
                cloudfrontOAI =
                  (case waOriginAccessIdentity props of
                     Some oai \<Rightarrow> ProvidedIdentity oai
                   | None \<Rightarrow> NewIdentity ''OriginAccessIdentity'' (''OAI for '' @ name));
                bucketPolicyActions =
                  (case waBucketPolicyActions props of None \<Rightarrow> [] | Some actions \<Rightarrow> actions)
                  @ [''s3:GetObject''];
                websiteBucket =
                  \<lparr>bucketId = ''WebsiteBucket'', bucketProps = waBucketProps props,
                   bucketName = wwwSiteDomain, policyActions = bucketPolicyActions\<rparr>;
                certSans = getCertificateDomains props;
                certificate =
                  \<lparr>certificateId = domainNameId @ ''Cert'', domainName = wwwSiteDomain,
                   hostedZone = zone, subjectAlternativeNames = certSans\<rparr>;
                distributionDomainWithSans = getDistributionDomains props;
                cdn =
                  \<lparr>distributionId = domainNameId @ ''Distribution'',
                   distributionCertificate = domainNameId @ ''Cert'',
                   enableLogging =
                     (case waEnableCloudFrontLogging props of None \<Rightarrow> False | Some b \<Rightarrow> b),
                   defaultRootObject =
                     (case waDefaultRootObject props of None \<Rightarrow> ''index.html'' | Some r \<Rightarrow> r),
                   domainNames = distributionDomainWithSans,
                   errorResponses =
                     [\<lparr>httpStatus = 403, responseHttpStatus = 403,
                       responsePagePath =
                         (case waErrorResponsePagePath props of
                            None \<Rightarrow> ''/error.html''
                          | Some e \<Rightarrow> e),
                       ttlMinutes = 30\<rparr>],
                   behaviorOverrides = waCloudFrontDistributionDefaultBehavior props,
                   compress = True\<rparr>;
                deployment =
                  \<lparr>deploymentId = ''DeployWithInvalidation'',
                   sources = [case waPathToContent props of None \<Rightarrow> ''build'' | Some c \<Rightarrow> c],
                   distributionPaths = [''/*'']\<rparr>;
                cfAliasRecord =
                  \<lparr>recordId = domainNameId @ ''CfAliasRecord'', recordName = wwwSiteDomain\<rparr>
            in case addChildren [] (constructIds props) of
                 Inl e \<Rightarrow> (Inl e, pushGetObject props)
               | Inr ids \<Rightarrow>
                   (Inr \<lparr>children = ids,
                         zone = zone,
                         cloudfrontOAI = cloudfrontOAI,
                         websiteBucket = websiteBucket,
                         certificate = certificate,
                         cdn = cdn,
                         deployment = deployment,
                         cfAliasRecord = cfAliasRecord,
                         wwwAliasRecords =
                           map (\<lambda>certName.
                                  \<lparr>recordId = domainNameToPascalCase certName @ ''WwwAliasRecord'',
                                   recordName = certName\<rparr>) certSans,
                         outputs =
                           map (\<lambda>certName.
                                  (domainNameToPascalCase certName @ ''UrlOutput'', Text certName))
                             certSans
                           @ [(''Bucket'', BucketNameOf ''WebsiteBucket''),
                              (''Certificate'', CertificateArnOf (domainNameId @ ''Cert'')),
                              (''DistributionId'', DistributionIdOf (domainNameId @ ''Distribution'')),
                              (''WebsiteUrl'', Text (''https://'' @ wwwSiteDomain))]\<rparr>,
                    pushGetObject props)))"

section \<open>Plain domains\<close>

text \<open>
  A plain label is a non-empty string of lower-case ASCII letters and digits; a plain
  domain is a domain all of whose dot-separated labels are plain ("example.com",
  "shop2.example.org"). Hyphens, upper-case letters and empty labels are excluded.
\<close>

definition plainLabel :: "string \<Rightarrow> bool" where
  "plainLabel l = (l \<noteq> [] \<and> list_all (\<lambda>c. isLower c \<or> isDigit c) l)"

definition plainDomain :: "string \<Rightarrow> bool" where
  "plainDomain d = list_all plainLabel (split (CHR ''.'') d)"

section \<open>The site domain\<close>

text \<open>
  Claim C1, as stated: for every request whose subdomain is present and not "www", the
  site domain is "www." + subDomain + "." + baseDomain, the empty string included. The
  guard of \<^verbatim>\<open>getSiteDomain\<close> tests truthiness first, so the present but empty
  subdomain takes the other branch: the request for "example.com" with subdomain ""
  gets "www.example.com", not "www..example.com".
\<close>

theorem getSiteDomain_empty_subdomain_counterexample:
  "waSubDomain ((minimalProps ''example.com'')\<lparr>waSubDomain := Some ''''\<rparr>) = Some ''''
   \<and> '''' \<noteq> ''www''
   \<and> getSiteDomain ((minimalProps ''example.com'')\<lparr>waSubDomain := Some ''''\<rparr>)
       \<noteq> ''www.'' @ '''' @ ''.'' @ ''example.com''
   \<and> getSiteDomain ((minimalProps ''example.com'')\<lparr>waSubDomain := Some ''''\<rparr>)
       = ''www.example.com''"
  by (simp add: getSiteDomain_def minimalProps_def truthy_def wwwSubDomain_def)

text \<open>
  Claim C1, amended: for every request whose subdomain is present, not empty and not
  "www", \<^verbatim>\<open>getSiteDomain\<close> returns "www." + subDomain + "." + baseDomain.
\<close>

theorem getSiteDomain_subdomain:
  assumes "waSubDomain props = Some sub" and "sub \<noteq> ''''" and "sub \<noteq> ''www''"
  shows "getSiteDomain props = ''www.'' @ sub @ ''.'' @ waDomainName props"
  using assms by (simp add: getSiteDomain_def truthy_def wwwSubDomain_def)

theorem getSiteDomain_subdomain_witness:
  "waSubDomain ((minimalProps ''example.com'')\<lparr>waSubDomain := Some ''shop''\<rparr>) = Some ''shop''
   \<and> ''shop'' \<noteq> '''' \<and> ''shop'' \<noteq> ''www''
   \<and> getSiteDomain ((minimalProps ''example.com'')\<lparr>waSubDomain := Some ''shop''\<rparr>)
       = ''www.shop.example.com''"
  using getSiteDomain_subdomain
    [of "(minimalProps ''example.com'')\<lparr>waSubDomain := Some ''shop''\<rparr>" "''shop''"]
  by (simp add: minimalProps_def)

text \<open>
  Claim C2: for every request whose subdomain is absent or equal to "www",
  \<^verbatim>\<open>getSiteDomain\<close> returns "www." + baseDomain.
\<close>

theorem getSiteDomain_default:
  assumes "waSubDomain props = None \<or> waSubDomain props = Some ''www''"
  shows "getSiteDomain props = ''www.'' @ waDomainName props"
  using assms by (auto simp: getSiteDomain_def truthy_def wwwSubDomain_def)

theorem getSiteDomain_default_witness:
  "(waSubDomain ((minimalProps ''example.com'')\<lparr>waSubDomain := Some ''www''\<rparr>) = None
    \<or> waSubDomain ((minimalProps ''example.com'')\<lparr>waSubDomain := Some ''www''\<rparr>) = Some ''www'')
   \<and> getSiteDomain ((minimalProps ''example.com'')\<lparr>waSubDomain := Some ''www''\<rparr>)
       = ''www.example.com''"
  using getSiteDomain_default [of "(minimalProps ''example.com'')\<lparr>waSubDomain := Some ''www''\<rparr>"]
  by (simp add: minimalProps_def)

text \<open>
  Claim C10: a subdomain that is present but empty is treated as an absent one.
  \<^verbatim>\<open>getSiteDomain\<close> returns "www." + waDomainName and the certificate domains start
  with waDomainName alone, exactly the results for the request without the subdomain.
\<close>

theorem empty_subdomain_as_absent:
  "getSiteDomain (props\<lparr>waSubDomain := Some ''''\<rparr>) = ''www.'' @ waDomainName props
   \<and> getSiteDomain (props\<lparr>waSubDomain := Some ''''\<rparr>) = getSiteDomain (props\<lparr>waSubDomain := None\<rparr>)
   \<and> getCertificateDomains (props\<lparr>waSubDomain := Some ''''\<rparr>)
       = waDomainName props # additionalDomains props
   \<and> getCertificateDomains (props\<lparr>waSubDomain := Some ''''\<rparr>)
       = getCertificateDomains (props\<lparr>waSubDomain := None\<rparr>)"
  by (simp add: getSiteDomain_def getCertificateDomains_def additionalDomains_def truthy_def
      wwwSubDomain_def split: option.split)

section \<open>Certificate and distribution domains\<close>

text \<open>The primary entry of the certificate domains, as the guard of the code selects it.\<close>

lemma getCertificateDomains_Cons:
  "getCertificateDomains props =
     (case waSubDomain props of
        None \<Rightarrow> waDomainName props
      | Some sub \<Rightarrow> if sub \<noteq> '''' \<and> sub \<noteq> ''www'' then sub @ ''.'' @ waDomainName props
                    else waDomainName props)
     # additionalDomains props"
  by (simp add: getCertificateDomains_def additionalDomains_def truthy_def wwwSubDomain_def
      split: option.split)

text \<open>
  Claim C3, as stated: the first certificate domain is subDomain + "." + baseDomain
  whenever the subdomain is present and not "www". For the present, empty subdomain the
  code gives the base domain "example.com", not ".example.com".
\<close>

theorem getCertificateDomains_empty_subdomain_counterexample:
  "waSubDomain ((minimalProps ''example.com'')\<lparr>waSubDomain := Some ''''\<rparr>) = Some ''''
   \<and> '''' \<noteq> ''www''
   \<and> getCertificateDomains ((minimalProps ''example.com'')\<lparr>waSubDomain := Some ''''\<rparr>)
       = [''example.com'']
   \<and> hd (getCertificateDomains ((minimalProps ''example.com'')\<lparr>waSubDomain := Some ''''\<rparr>))
       \<noteq> '''' @ ''.'' @ ''example.com''"
  by (simp add: getCertificateDomains_Cons additionalDomains_def minimalProps_def)

text \<open>
  Claim C3, amended: \<^verbatim>\<open>getCertificateDomains\<close> returns a sequence whose first
  element is subDomain + "." + baseDomain when the subdomain is present, not empty and not
  "www", and baseDomain alone otherwise, followed by every entry of the additional domains
  in input order; its length is 1 + the number of additional domains (none when the field
  is absent).
\<close>

theorem getCertificateDomains_shape:
  "hd (getCertificateDomains props) =
     (case waSubDomain props of
        None \<Rightarrow> waDomainName props
      | Some sub \<Rightarrow> if sub \<noteq> '''' \<and> sub \<noteq> ''www'' then sub @ ''.'' @ waDomainName props
                    else waDomainName props)
   \<and> tl (getCertificateDomains props) =
       (case waAdditionalDomainNames props of None \<Rightarrow> [] | Some ds \<Rightarrow> ds)
   \<and> length (getCertificateDomains props) =
       1 + (case waAdditionalDomainNames props of None \<Rightarrow> 0 | Some ds \<Rightarrow> length ds)"
  by (simp add: getCertificateDomains_Cons additionalDomains_def split: option.split)

text \<open>
  Claim C4: \<^verbatim>\<open>getDistributionDomains\<close> is \<^verbatim>\<open>getCertificateDomains\<close> of the same
  request with \<^verbatim>\<open>getSiteDomain\<close> of the same request appended as the single last
  element, and its length is 2 + the number of additional domains.
\<close>

theorem getDistributionDomains_append:
  "getDistributionDomains props = getCertificateDomains props @ [getSiteDomain props]
   \<and> last (getDistributionDomains props) = getSiteDomain props
   \<and> butlast (getDistributionDomains props) = getCertificateDomains props
   \<and> length (getDistributionDomains props) =
       2 + (case waAdditionalDomainNames props of None \<Rightarrow> 0 | Some ds \<Rightarrow> length ds)"
  by (simp add: getDistributionDomains_def getCertificateDomains_Cons additionalDomains_def
      split: option.split)

text \<open>
  Claim C5, as stated: the site domain occurs at most once in the distribution domains,
  whatever the additional domains are. A caller that lists "www.example.com" among the
  additional domains of "example.com" gets it twice.
\<close>

theorem siteDomain_twice_counterexample:
  "getDistributionDomains
     ((minimalProps ''example.com'')\<lparr>waAdditionalDomainNames := Some [''www.example.com'']\<rparr>)
     = [''example.com'', ''www.example.com'', ''www.example.com'']
   \<and> count_list
       (getDistributionDomains
          ((minimalProps ''example.com'')\<lparr>waAdditionalDomainNames := Some [''www.example.com'']\<rparr>))
       (getSiteDomain
          ((minimalProps ''example.com'')\<lparr>waAdditionalDomainNames := Some [''www.example.com'']\<rparr>))
     = 2"
  by (simp add: getDistributionDomains_def getCertificateDomains_Cons additionalDomains_def
      getSiteDomain_def wwwSubDomain_def minimalProps_def)

text \<open>The primary certificate domain is four characters shorter than the site domain.\<close>

lemma primary_domain_not_siteDomain:
  "hd (getCertificateDomains props) \<noteq> getSiteDomain props"
proof -
  have "length (getSiteDomain props) = 4 + length (hd (getCertificateDomains props))"
    by (simp add: getCertificateDomains_Cons getSiteDomain_def truthy_def wwwSubDomain_def
        split: option.split)
  then show ?thesis by auto
qed

text \<open>
  Claim C5, amended: the code itself adds the site domain exactly once, at the end; the
  site domain occurs in the distribution domains once more than it occurs in the
  caller-supplied additional domains, so exactly once when the caller did not list it.
\<close>

theorem siteDomain_count:
  "count_list (getDistributionDomains props) (getSiteDomain props)
     = 1 + count_list (additionalDomains props) (getSiteDomain props)"
proof -
  have "getCertificateDomains props = hd (getCertificateDomains props) # additionalDomains props"
    by (simp add: getCertificateDomains_Cons)
  then have "count_list (getCertificateDomains props) (getSiteDomain props)
      = count_list (additionalDomains props) (getSiteDomain props)"
    using primary_domain_not_siteDomain [of props]
    by (metis count_list.simps(2))
  then show ?thesis by (simp add: getDistributionDomains_def)
qed

section \<open>Resource identifiers of concrete domains\<close>

text \<open>
  Claim C9: the identifier of "example.com" is "ExampleDotCom". The two parts are
  capitalized to "Example" and "Com", each is followed by "Dot", and the last "Dot",
  found at index 13 of "ExampleDotComDot", is cut off.
\<close>

theorem domainNameToPascalCase_example_com:
  "domainNameToPascalCase ''example.com'' = ''ExampleDotCom''
   \<and> split (CHR ''.'') ''example.com'' = [''example'', ''com'']
   \<and> map pascalCase [''example'', ''com''] = [''Example'', ''Com'']
   \<and> lastIndexOf ''ExampleDotComDot'' ''Dot'' = 13"
  by code_simp

section \<open>Characters and string primitives\<close>

text \<open>Neither the hyphen nor NUL is a letter or a digit, and the case mappings never produce a hyphen.\<close>

lemma dash_not_word: "\<not> isWordChar (CHR ''-'')"
  by (simp add: isWordChar_def isUpper_def isLower_def isDigit_def upperLetters_def
      lowerLetters_def digits_def)

lemma NUL_not_word: "\<not> isWordChar NUL"
  by (simp add: isWordChar_def isUpper_def isLower_def isDigit_def upperLetters_def
      lowerLetters_def digits_def NUL_def)

lemma toUpperCase_cases: "toUpperCase c = c \<or> isUpper (toUpperCase c)"
proof (cases "map_of (zip lowerLetters upperLetters) c")
  case None
  then show ?thesis by (simp add: toUpperCase_def)
next
  case (Some u)
  then have "(c, u) \<in> set (zip lowerLetters upperLetters)" by (rule map_of_SomeD)
  then have "u \<in> set upperLetters" by (rule set_zip_rightD)
  with Some show ?thesis by (simp add: toUpperCase_def isUpper_def)
qed

lemma toLowerCase_cases: "toLowerCase c = c \<or> isLower (toLowerCase c)"
proof (cases "map_of (zip upperLetters lowerLetters) c")
  case None
  then show ?thesis by (simp add: toLowerCase_def)
next
  case (Some l)
  then have "(c, l) \<in> set (zip upperLetters lowerLetters)" by (rule map_of_SomeD)
  then have "l \<in> set lowerLetters" by (rule set_zip_rightD)
  with Some show ?thesis by (simp add: toLowerCase_def isLower_def)
qed

lemma toUpperCase_dash: "toUpperCase c = CHR ''-'' \<Longrightarrow> c = CHR ''-''"
  using toUpperCase_cases [of c] dash_not_word by (auto simp: isWordChar_def)

lemma toLowerCase_dash: "toLowerCase c = CHR ''-'' \<Longrightarrow> c = CHR ''-''"
  using toLowerCase_cases [of c] dash_not_word by (auto simp: isWordChar_def)

text \<open>Slicing, replacing by nothing and splitting only ever keep characters of the string.\<close>

lemma set_slice: "set (slice s b e) \<subseteq> set s"
  unfolding slice_def Let_def
  by (meson set_take_subset set_drop_subset subset_trans)

lemma set_replace_empty: "set (replace c [] s) \<subseteq> set s"
  by (induction s) auto

lemma replace_absent: "c \<notin> set s \<Longrightarrow> replace c rep s = s"
  by (induction s) auto

lemma split_not_Nil: "split sep s \<noteq> []"
  by (induction s) (auto split: list.splits)

lemma set_split: "w \<in> set (split sep s) \<Longrightarrow> set w \<subseteq> set s"
proof (induction s arbitrary: w)
  case Nil
  then show ?case by simp
next
  case (Cons c cs)
  show ?case
  proof (cases "c = sep")
    case True
    with Cons show ?thesis by auto
  next
    case False
    obtain p ps where ps: "split sep cs = p # ps"
      using split_not_Nil [of sep cs] by (cases "split sep cs") auto
    with False Cons.prems have "w = c # p \<or> w \<in> set ps" by auto
    then show ?thesis
    proof
      assume "w = c # p"
      moreover have "set p \<subseteq> set cs" using Cons.IH [of p] ps by simp
      ultimately show ?thesis by auto
    next
      assume "w \<in> set ps"
      then have "set w \<subseteq> set cs" using Cons.IH [of w] ps by simp
      then show ?thesis by auto
    qed
  qed
qed

section \<open>No hyphen leaves pascalCase\<close>

text \<open>
  After the strip expression every character is a letter, a digit or NUL, so no word handed
  to the transform holds a hyphen, and the transform adds none.
\<close>

lemma set_stripNonWord: "c \<in> set (stripNonWord s) \<Longrightarrow> isWordChar c \<or> c = NUL"
  by (induction s rule: stripNonWord.induct) (auto split: if_splits)

lemma dash_map_toUpperCase: "CHR ''-'' \<notin> set xs \<Longrightarrow> CHR ''-'' \<notin> set (map toUpperCase xs)"
  by (induction xs) (auto dest: toUpperCase_dash toUpperCase_dash [OF sym])

lemma dash_map_toLowerCase: "CHR ''-'' \<notin> set xs \<Longrightarrow> CHR ''-'' \<notin> set (map toLowerCase xs)"
  by (induction xs) (auto dest: toLowerCase_dash toLowerCase_dash [OF sym])

lemma dash_pascalCaseTransform:
  assumes "CHR ''-'' \<notin> set w"
  shows "CHR ''-'' \<notin> set (pascalCaseTransform w i)"
proof -
  have t: "CHR ''-'' \<notin> set (take 1 w)" using assms by (meson in_set_takeD)
  have d: "CHR ''-'' \<notin> set (drop 1 w)" using assms by (meson in_set_dropD)
  show ?thesis
    using t dash_map_toUpperCase [OF t] dash_map_toLowerCase [OF d]
    by (simp add: pascalCaseTransform_def Let_def)
qed

lemma dash_pascalCase: "CHR ''-'' \<notin> set (pascalCase s)"
proof -
  define result where "result = stripNonWord (splitUpperUpperLower (splitLowerUpper s))"
  define start where "start = length (takeWhile (\<lambda>c. c = NUL) result)"
  define end' where "end' = length result - length (takeWhile (\<lambda>c. c = NUL) (rev result))"
  define ws where "ws = split NUL (slice result (int start) (int end'))"
  have r: "CHR ''-'' \<notin> set result"
    using set_stripNonWord [of "CHR ''-''"] dash_not_word
    by (auto simp: result_def NUL_def)
  have "CHR ''-'' \<notin> set w" if "w \<in> set ws" for w
    using that set_split [of w NUL] set_slice [of result] r unfolding ws_def by blast
  then have "CHR ''-'' \<notin> set (pascalCaseTransform w i)" if "(i, w) \<in> set (enumerate 0 ws)" for i w
    using that dash_pascalCaseTransform by (auto simp: in_set_enumerate_eq)
  then have "CHR ''-'' \<notin> set (concat (map (\<lambda>(index, word). pascalCaseTransform word index) (enumerate 0 ws)))"
    by auto
  then show ?thesis
    by (simp add: pascalCase_def Let_def ws_def start_def end'_def result_def)
qed

text \<open>The loop of \<^verbatim>\<open>domainNameToPascalCase\<close> as a concatenation.\<close>

lemma domain_loop:
  "foldl (\<lambda>domain domainPart. domain @ pascalCase domainPart @ ''Dot'') acc parts
     = acc @ concat (map (\<lambda>p. pascalCase p @ ''Dot'') parts)"
  by (induction parts arbitrary: acc) simp_all

lemma dash_domain:
  "CHR ''-'' \<notin> set (foldl (\<lambda>domain domainPart. domain @ pascalCase domainPart @ ''Dot'') [] parts)"
  by (simp add: domain_loop dash_pascalCase)

lemma dash_domainNameToPascalCase: "CHR ''-'' \<notin> set (domainNameToPascalCase d)"
  unfolding domainNameToPascalCase_def Let_def
  using set_slice set_replace_empty dash_domain by (meson subsetD)


section \<open>The shape of the identifier\<close>

text \<open>
  The concatenated string ends with "Dot", so the last "Dot" is its final three characters;
  it holds no hyphen, so the replacement returns it unchanged and the slice cuts exactly
  the final "Dot".
\<close>

lemma lastIndexOf_suffix: "lastIndexOf (xs @ pat) pat = int (length xs)"
  by (cases "length xs") (simp_all add: lastIndexOf_def)

lemma slice_prefix: "slice (xs @ ys) 0 (int (length xs)) = xs"
  by (simp add: slice_def Let_def)

lemma concat_Dot_snoc:
  assumes "parts \<noteq> []"
  shows "concat (map (\<lambda>p. f p @ ''Dot'') parts)
           = (concat (map (\<lambda>p. f p @ ''Dot'') (butlast parts)) @ f (last parts)) @ ''Dot''"
proof -
  have "parts = butlast parts @ [last parts]" using assms by simp
  then have "concat (map (\<lambda>p. f p @ ''Dot'') parts)
      = concat (map (\<lambda>p. f p @ ''Dot'') (butlast parts @ [last parts]))" by simp
  then show ?thesis by simp
qed

lemma domainNameToPascalCase_Dot:
  "domainNameToPascalCase d @ ''Dot''
     = concat (map (\<lambda>p. pascalCase p @ ''Dot'') (split (CHR ''.'') d))"
proof -
  define parts where "parts = split (CHR ''.'') d"
  define body where
    "body = concat (map (\<lambda>p. pascalCase p @ ''Dot'') (butlast parts)) @ pascalCase (last parts)"
  define domain where
    "domain = foldl (\<lambda>domain domainPart. domain @ pascalCase domainPart @ ''Dot'') [] parts"
  have "parts \<noteq> []" by (simp add: parts_def split_not_Nil)
  then have dom: "domain = body @ ''Dot''"
    unfolding domain_def body_def using concat_Dot_snoc [of parts pascalCase]
    by (simp add: domain_loop)
  have "CHR ''-'' \<notin> set domain" unfolding domain_def by (rule dash_domain)
  then have "replace (CHR ''-'') [] domain = domain" by (rule replace_absent)
  moreover have "lastIndexOf domain ''Dot'' = int (length body)"
    unfolding dom by (rule lastIndexOf_suffix)
  ultimately have "domainNameToPascalCase d = slice (body @ ''Dot'') 0 (int (length body))"
    by (simp add: domainNameToPascalCase_def Let_def parts_def [symmetric] domain_def [symmetric] dom)
  then have "domainNameToPascalCase d = body" by (simp only: slice_prefix)
  then show ?thesis using dom by (simp add: domain_def domain_loop parts_def)
qed

section \<open>Plain labels\<close>

text \<open>
  On a plain label no expression of \<^verbatim>\<open>noCase\<close> matches: the label is a single word,
  and \<^verbatim>\<open>pascalCase\<close> only puts its first character in upper case.
\<close>

lemma plain_chars_checked:
  "list_all (\<lambda>c. \<not> isUpper c \<and> toLowerCase (toUpperCase c) = c) (lowerLetters @ digits)"
  by code_simp

lemma plain_char_mem: "isLower c \<or> isDigit c \<Longrightarrow> c \<in> set (lowerLetters @ digits)"
  by (auto simp: isLower_def isDigit_def)

lemma plain_not_upper: "isLower c \<or> isDigit c \<Longrightarrow> \<not> isUpper c"
  using plain_chars_checked plain_char_mem [of c] unfolding list_all_iff by blast

lemma toLowerCase_toUpperCase: "isLower c \<or> isDigit c \<Longrightarrow> toLowerCase (toUpperCase c) = c"
  using plain_chars_checked plain_char_mem [of c] unfolding list_all_iff by blast

lemma D_upper: "isUpper (CHR ''D'')" "\<not> isLower (CHR ''D'')" "\<not> isDigit (CHR ''D'')"
  by (simp_all add: isLower_def isDigit_def isUpper_def lowerLetters_def upperLetters_def digits_def)

lemma toLowerCase_plain:
  assumes "\<not> isUpper c"
  shows "toLowerCase c = c"
proof -
  have "map fst (zip upperLetters lowerLetters) = upperLetters"
    by (simp add: upperLetters_def lowerLetters_def)
  then have "fst ` set (zip upperLetters lowerLetters) = set upperLetters"
    by (metis set_map)
  then have "map_of (zip upperLetters lowerLetters) c = None"
    using assms by (simp add: map_of_eq_None_iff isUpper_def)
  then show ?thesis by (simp add: toLowerCase_def)
qed

lemma splitLowerUpper_id: "list_all (\<lambda>c. \<not> isUpper c) s \<Longrightarrow> splitLowerUpper s = s"
  by (induction s rule: splitLowerUpper.induct) simp_all

lemma splitUpperUpperLower_id: "list_all (\<lambda>c. \<not> isUpper c) s \<Longrightarrow> splitUpperUpperLower s = s"
  by (induction s rule: splitUpperUpperLower.induct) simp_all

lemma stripNonWord_id: "list_all isWordChar s \<Longrightarrow> stripNonWord s = s"
  by (induction s rule: stripNonWord.induct) simp_all

lemma split_absent: "sep \<notin> set s \<Longrightarrow> split sep s = [s]"
  by (induction s) auto

lemma takeWhile_absent: "x \<notin> set xs \<Longrightarrow> takeWhile (\<lambda>c. c = x) xs = []"
  by (cases xs) auto

lemma pascalCase_plain:
  assumes "plainLabel l"
  shows "pascalCase l = toUpperCase (hd l) # tl l"
proof -
  from assms obtain a t where l: "l = a # t" by (cases l) (auto simp: plainLabel_def)
  have plain: "list_all (\<lambda>c. isLower c \<or> isDigit c) l" using assms by (simp add: plainLabel_def)
  then have nu: "list_all (\<lambda>c. \<not> isUpper c) l"
    using plain_not_upper unfolding list_all_iff by blast
  from plain have w: "list_all isWordChar l"
    unfolding list_all_iff isWordChar_def by blast
  then have nn: "NUL \<notin> set l" using NUL_not_word by (auto simp: list_all_iff)
  have res: "stripNonWord (splitUpperUpperLower (splitLowerUpper l)) = l"
    by (simp add: splitLowerUpper_id splitUpperUpperLower_id stripNonWord_id nu w)
  have st: "takeWhile (\<lambda>c. c = NUL) l = []" using nn by (rule takeWhile_absent)
  have "NUL \<notin> set (rev l)" using nn by simp
  then have en: "takeWhile (\<lambda>c. c = NUL) (rev l) = []" by (rule takeWhile_absent)
  have sl: "slice l 0 (int (length l)) = l" by (simp add: slice_def Let_def)
  have lower: "map toLowerCase t = t"
    using nu l by (auto simp: list_all_iff toLowerCase_plain intro: map_idI)
  have "pascalCase l = pascalCaseTransform l 0"
    by (simp add: pascalCase_def Let_def res st en sl split_absent [OF nn])
  also have "\<dots> = toUpperCase a # t"
    by (simp add: pascalCaseTransform_def Let_def l lower)
  finally show ?thesis by (simp add: l)
qed

section \<open>Reading the labels back\<close>

text \<open>
  In the concatenation for plain labels, the first upper-case character after the head of
  a converted label is the "D" of its "Dot": the label's end is determined, and so is the
  label, since upper-casing is injective on lower-case letters and digits. Splitting at
  dots loses nothing either.
\<close>

lemma plain_Dot_cancel:
  assumes "list_all (\<lambda>c. isLower c \<or> isDigit c) t" and "list_all (\<lambda>c. isLower c \<or> isDigit c) t'"
    and "t @ ''Dot'' @ r = t' @ ''Dot'' @ r'"
  shows "t = t' \<and> r = r'"
proof -
  let ?P = "\<lambda>c. isLower c \<or> isDigit c"
  have "takeWhile ?P (t @ ''Dot'' @ r) = t"
    using assms(1) D_upper by (simp add: list_all_iff takeWhile_eq_all_conv [THEN iffD2])
  moreover have "takeWhile ?P (t' @ ''Dot'' @ r') = t'"
    using assms(2) D_upper by (simp add: list_all_iff takeWhile_eq_all_conv [THEN iffD2])
  ultimately have "t = t'" using assms(3) by simp
  then show ?thesis using assms(3) by simp
qed

lemma plain_label_cancel:
  assumes "plainLabel p" and "plainLabel q"
    and "pascalCase p @ ''Dot'' @ r = pascalCase q @ ''Dot'' @ r'"
  shows "p = q \<and> r = r'"
proof -
  from assms(1) obtain a t where p: "p = a # t" by (cases p) (auto simp: plainLabel_def)
  from assms(2) obtain b u where q: "q = b # u" by (cases q) (auto simp: plainLabel_def)
  have pa: "isLower a \<or> isDigit a" and pt: "list_all (\<lambda>c. isLower c \<or> isDigit c) t"
    using assms(1) p by (simp_all add: plainLabel_def)
  have qb: "isLower b \<or> isDigit b" and qu: "list_all (\<lambda>c. isLower c \<or> isDigit c) u"
    using assms(2) q by (simp_all add: plainLabel_def)
  have "pascalCase p = toUpperCase a # t" using pascalCase_plain [OF assms(1)] p by simp
  moreover have "pascalCase q = toUpperCase b # u" using pascalCase_plain [OF assms(2)] q by simp
  ultimately have eq: "toUpperCase a # t @ ''Dot'' @ r = toUpperCase b # u @ ''Dot'' @ r'"
    using assms(3) by simp
  then have "toUpperCase a = toUpperCase b" by simp
  then have "toLowerCase (toUpperCase a) = toLowerCase (toUpperCase b)" by simp
  then have ab: "a = b" by (simp add: toLowerCase_toUpperCase [OF pa] toLowerCase_toUpperCase [OF qb])
  from eq have "t @ ''Dot'' @ r = u @ ''Dot'' @ r'" by simp
  then have "t = u \<and> r = r'" by (rule plain_Dot_cancel [OF pt qu])
  with ab show ?thesis by (simp add: p q)
qed

lemma plain_labels_inj:
  assumes "list_all plainLabel ps" and "list_all plainLabel qs"
    and "concat (map (\<lambda>p. pascalCase p @ ''Dot'') ps) = concat (map (\<lambda>p. pascalCase p @ ''Dot'') qs)"
  shows "ps = qs"
  using assms
proof (induction ps arbitrary: qs)
  case Nil
  then show ?case by (cases qs) simp_all
next
  case (Cons p ps)
  show ?case
  proof (cases qs)
    case Nil
    with Cons.prems show ?thesis by simp
  next
    case (Cons q qs')
    have "pascalCase p @ ''Dot'' @ concat (map (\<lambda>p. pascalCase p @ ''Dot'') ps)
        = pascalCase q @ ''Dot'' @ concat (map (\<lambda>p. pascalCase p @ ''Dot'') qs')"
      using Cons.prems(3) Cons by simp
    moreover have "plainLabel p" "plainLabel q" using Cons.prems(1,2) Cons by simp_all
    ultimately have "p = q \<and> concat (map (\<lambda>p. pascalCase p @ ''Dot'') ps)
        = concat (map (\<lambda>p. pascalCase p @ ''Dot'') qs')"
      using plain_label_cancel by blast
    moreover have "list_all plainLabel ps" "list_all plainLabel qs'"
      using Cons.prems(1,2) Cons by simp_all
    ultimately show ?thesis using Cons.IH [of qs'] Cons by simp
  qed
qed

lemma split_Cons:
  "split sep (c # cs) =
     (if c = sep then [] # split sep cs else (c # hd (split sep cs)) # tl (split sep cs))"
  using split_not_Nil [of sep cs] by (cases "split sep cs") simp_all

lemma split_inj: "split sep s = split sep s' \<Longrightarrow> s = s'"
proof (induction s arbitrary: s')
  case Nil
  then show ?case
    using split_not_Nil [of sep "tl s'"]
    by (cases s') (auto simp: split_Cons simp del: split.simps(2) split: if_splits)
next
  case (Cons c cs)
  show ?case
  proof (cases s')
    case Nil
    with Cons.prems show ?thesis
      using split_not_Nil [of sep cs]
      by (auto simp: split_Cons simp del: split.simps(2) split: if_splits)
  next
    case (Cons c' cs')
    from Cons.prems have eq: "split sep (c # cs) = split sep (c' # cs')" by (simp only: Cons)
    have "c = c' \<and> split sep cs = split sep cs'"
      using eq split_not_Nil [of sep cs] split_not_Nil [of sep cs']
      by (auto simp: split_Cons simp del: split.simps(2) split: if_splits intro: list.expand)
    then show ?thesis using Cons.IH [of cs'] Cons by simp
  qed
qed

section \<open>Hyphens and collisions\<close>

text \<open>
  Claim C7, as stated: only the first "-" is removed, later occurrences stay. The input
  "a-b-c.example.com" has two hyphens and its identifier "ABCDotExampleDotCom" has none:
  the second one is removed too.
\<close>

theorem domainNameToPascalCase_later_dashes_counterexample:
  "count_list ''a-b-c.example.com'' (CHR ''-'') = 2
   \<and> domainNameToPascalCase ''a-b-c.example.com'' = ''ABCDotExampleDotCom''
   \<and> count_list (domainNameToPascalCase ''a-b-c.example.com'') (CHR ''-'') = 0"
  by code_simp

text \<open>
  Claim C7, amended: no "-" of the input, first or later, is left in the identifier.
  \<^verbatim>\<open>pascalCase\<close> strips every hyphen of every part, so the concatenated string
  holds none and the replacement of the first "-" changes nothing: the identifier followed
  by "Dot" is the concatenation of the converted parts, each followed by "Dot". The
  identifier of "my-app.example.com" is "MyAppDotExampleDotCom", its one hyphen gone.
\<close>

theorem domainNameToPascalCase_no_dash:
  "CHR ''-'' \<notin> set (domainNameToPascalCase d)
   \<and> domainNameToPascalCase d @ ''Dot''
       = concat (map (\<lambda>domainPart. pascalCase domainPart @ ''Dot'') (split (CHR ''.'') d))
   \<and> domainNameToPascalCase ''my-app.example.com'' = ''MyAppDotExampleDotCom''"
proof -
  have "domainNameToPascalCase ''my-app.example.com'' = ''MyAppDotExampleDotCom''"
    by code_simp
  then show ?thesis
    using dash_domainNameToPascalCase [of d] domainNameToPascalCase_Dot [of d]
    by simp
qed

text \<open>
  Claim C8, as stated: distinct domains get distinct identifiers. The domains
  "a-dot-b.com" and "a.b.com" are distinct and both get "ADotBDotCom"; so do
  "Example.com" and "example.com" with "ExampleDotCom", and "." and "dot" with "Dot".
\<close>

theorem domainNameToPascalCase_collision_counterexample:
  "''a-dot-b.com'' \<noteq> ''a.b.com''
   \<and> domainNameToPascalCase ''a-dot-b.com'' = ''ADotBDotCom''
   \<and> domainNameToPascalCase ''a.b.com'' = ''ADotBDotCom''
   \<and> ''Example.com'' \<noteq> ''example.com''
   \<and> domainNameToPascalCase ''Example.com'' = domainNameToPascalCase ''example.com''
   \<and> ''.'' \<noteq> ''dot''
   \<and> domainNameToPascalCase ''.'' = domainNameToPascalCase ''dot''"
  by code_simp

text \<open>
  Claim C8, amended: \<^verbatim>\<open>domainNameToPascalCase\<close> is injective on plain domains,
  the domains whose dot-separated labels are non-empty strings of lower-case letters and
  digits: two distinct plain domains never get the same identifier.
\<close>

theorem domainNameToPascalCase_inj_plain:
  assumes "plainDomain d" and "plainDomain d'" and "d \<noteq> d'"
  shows "domainNameToPascalCase d \<noteq> domainNameToPascalCase d'"
proof
  assume "domainNameToPascalCase d = domainNameToPascalCase d'"
  then have "domainNameToPascalCase d @ ''Dot'' = domainNameToPascalCase d' @ ''Dot''" by simp
  then have "split (CHR ''.'') d = split (CHR ''.'') d'"
    using assms(1,2) unfolding domainNameToPascalCase_Dot plainDomain_def
    by (intro plain_labels_inj)
  then have "d = d'" by (rule split_inj)
  with assms(3) show False by simp
qed

theorem domainNameToPascalCase_inj_plain_witness:
  "plainDomain ''example.com'' \<and> plainDomain ''example.org''
   \<and> ''example.com'' \<noteq> ''example.org''
   \<and> domainNameToPascalCase ''example.com'' \<noteq> domainNameToPascalCase ''example.org''"
  using domainNameToPascalCase_inj_plain [of "''example.com''" "''example.org''"]
  by (simp add: plainDomain_def plainLabel_def isLower_def isDigit_def lowerLetters_def digits_def)

section \<open>The certificate description\<close>


text \<open>A completed constructor went through the zone lookup and met no taken identifier.\<close>

lemma X8Website_empty:
  "waDomainName props = [] \<Longrightarrow> X8Website name props = (Inl InvalidDomainInput, props)"
  by (simp add: X8Website_def Let_def)

lemma X8Website_collision:
  assumes "waDomainName props \<noteq> []" and "addChildren [] (constructIds props) = Inl e"
  shows "X8Website name props = (Inl e, pushGetObject props)"
  unfolding X8Website_def Let_def by (simp only: assms if_False sum.case)

lemma X8Website_completes:
  assumes "waDomainName props \<noteq> []" and "addChildren [] (constructIds props) = Inr ids"
  shows "\<exists>r. X8Website name props = (Inr r, pushGetObject props)
           \<and> children r = ids
           \<and> subjectAlternativeNames (certificate r) = getCertificateDomains props
           \<and> domainNames (cdn r) = getDistributionDomains props"
  unfolding X8Website_def Let_def by (simp only: assms if_False sum.case) simp




text \<open>
  A request with a repeated certificate domain: "example.com" listed again among the
  additional domains asks for the alias record "ExampleDotComWwwAliasRecord" twice, and
  the constructor fails. It fails on an empty domain name too, before the push.
\<close>

lemma X8Website_duplicate_domain_fails:
  "fst (X8Website ''Site''
       ((minimalProps ''example.com'')\<lparr>waAdditionalDomainNames := Some [''example.com'']\<rparr>))
     = Inl (IdentifierCollision ''ExampleDotComWwwAliasRecord'')"
proof -
  let ?props = "(minimalProps ''example.com'')\<lparr>waAdditionalDomainNames := Some [''example.com'']\<rparr>"
  have ne: "waDomainName ?props \<noteq> []" by (simp add: minimalProps_def)
  have taken: "addChildren [] (constructIds ?props)
      = Inl (IdentifierCollision ''ExampleDotComWwwAliasRecord'')" by code_simp
  show ?thesis by (simp only: X8Website_collision [OF ne taken] fst_conv)
qed

lemma X8Website_empty_domain_fails:
  "X8Website name ((minimalProps '''')\<lparr>waBucketPolicyActions := Some actions\<rparr>)
     = (Inl InvalidDomainInput, (minimalProps '''')\<lparr>waBucketPolicyActions := Some actions\<rparr>)"
  by (simp add: X8Website_empty minimalProps_def)

text \<open>The caller's array of policy actions has the pushed action after any later outcome.\<close>

lemma X8Website_pushes_action:
  assumes "waDomainName props \<noteq> []" and "waBucketPolicyActions props = Some actions"
  shows "waBucketPolicyActions (snd (X8Website name props)) = Some (actions @ [''s3:GetObject''])"
proof (cases "addChildren [] (constructIds props)")
  case (Inl e)
  from X8Website_collision [OF assms(1) Inl, of name] assms(2) show ?thesis
    by (simp add: pushGetObject_def)
next
  case (Inr ids)
  from X8Website_completes [OF assms(1) Inr, of name] assms(2) show ?thesis
    by (auto simp: pushGetObject_def)
qed




end
